theory Spec2Isabelle
  imports Main
begin

section \<open>Values exchanged with the providers\<close>

text \<open>
  The handlers of \<^verbatim>\<open>app.py\<close> work on decoded JSON documents: the profile a provider
  returns, the token response of MSAL, the dictionary stored in the session. A Python
  \<^verbatim>\<open>dict\<close> is an association list whose first binding of a key is the dictionary's
  entry (\<open>map_of\<close>); Python's \<^verbatim>\<open>None\<close> is \<open>JNull\<close>. JSON numbers are integers here.
\<close>

datatype json =
    JNull
  | JBool bool
  | JInt int
  | JStr string
  | JArr "json list"
  | JObj "(string \<times> json) list"

text \<open>
  The exceptions a request can meet: \<^verbatim>\<open>AttributeError\<close> (a method looked up on a value
  that has none), \<^verbatim>\<open>KeyError\<close> (a subscript on a missing key) and whatever a library
  raises (authlib, MSAL, requests, the Supabase client), which carries its message. All
  are subclasses of \<^verbatim>\<open>Exception\<close>.
\<close>

datatype py_exception =
    AttributeError string
  | KeyError string
  | ExternalError string

fun type_name :: "json \<Rightarrow> string" where
  "type_name JNull = ''NoneType''"
| "type_name (JBool _) = ''bool''"
| "type_name (JInt _) = ''int''"
| "type_name (JStr _) = ''str''"
| "type_name (JArr _) = ''list''"
| "type_name (JObj _) = ''dict''"

definition apostrophe :: string where
  "apostrophe = [CHR 0x27]"

text \<open>\<^verbatim>\<open>str(e)\<close>: the message; for a \<^verbatim>\<open>KeyError\<close> the \<^verbatim>\<open>repr\<close> of the key.\<close>

fun str_exception :: "py_exception \<Rightarrow> string" where
  "str_exception (AttributeError m) = m"
| "str_exception (KeyError k) = apostrophe @ k @ apostrophe"
| "str_exception (ExternalError m) = m"

text \<open>
  \<^verbatim>\<open>d.get(k)\<close> on a dictionary: the entry, or \<^verbatim>\<open>None\<close>. \<^verbatim>\<open>v.get(k, default)\<close> on
  any decoded value: only a dictionary has the method.
\<close>

definition dict_get :: "(string \<times> json) list \<Rightarrow> string \<Rightarrow> json" where
  "dict_get d k = (case map_of d k of None \<Rightarrow> JNull | Some v \<Rightarrow> v)"

fun py_get :: "json \<Rightarrow> string \<Rightarrow> json \<Rightarrow> py_exception + json" where
  "py_get (JObj d) k dflt = Inr (case map_of d k of None \<Rightarrow> dflt | Some v \<Rightarrow> v)"
| "py_get v k dflt =
     Inl (AttributeError (apostrophe @ type_name v @ apostrophe @ '' object has no attribute ''
            @ apostrophe @ ''get'' @ apostrophe))"

text \<open>Python's truth value of a decoded value, as \<^verbatim>\<open>or\<close> and \<^verbatim>\<open>not\<close> test it.\<close>

fun truthy :: "json \<Rightarrow> bool" where
  "truthy JNull = False"
| "truthy (JBool b) = b"
| "truthy (JInt i) = (i \<noteq> 0)"
| "truthy (JStr s) = (s \<noteq> [])"
| "truthy (JArr xs) = (xs \<noteq> [])"
| "truthy (JObj d) = (d \<noteq> [])"

section \<open>The identity store\<close>

text \<open>
  A row of the table \<^verbatim>\<open>auth_users\<close>, with the columns \<^verbatim>\<open>save_user\<close> writes. The
  timestamp is the reading of the clock (\<^verbatim>\<open>datetime.utcnow()\<close>), a parameter of every
  write; its ISO rendering is not modelled. The table has no uniqueness constraint the
  code relies on, so the store is a list of rows and may hold duplicates.
\<close>

type_synonym timestamp = nat

record auth_user =
  provider :: string
  provider_user_id :: json
  name :: json
  email :: json
  profile_picture :: json
  raw_data :: json
  updated_at :: timestamp

type_synonym store = "auth_user list"

text \<open>
  The store is remote: each \<^verbatim>\<open>execute()\<close> returns or raises. What the remote side does in
  one call of \<^verbatim>\<open>save_user\<close> is a parameter: nothing goes wrong, the select raises, the
  write is rejected (and not applied), or the write is applied and the call raises all the
  same (the answer is lost).
\<close>

datatype db_fault =
    No_Fault
  | Select_Raises py_exception
  | Write_Rejected py_exception
  | Write_Lost py_exception

text \<open>
  The filter \<^verbatim>\<open>.eq("provider", p).eq("provider_user_id", pid)\<close>, which the select and the
  update of \<^verbatim>\<open>save_user\<close> share: the rows whose two columns equal the given values. The
  comparison is the store's: a null equals nothing, so with \<^verbatim>\<open>provider_id\<close> \<^verbatim>\<open>None\<close> the
  filter selects no row, not even one whose \<^verbatim>\<open>provider_user_id\<close> is null. The table's
  declaration is not part of the sources; the column is taken to accept a null, so that an
  insert with \<^verbatim>\<open>provider_id\<close> \<^verbatim>\<open>None\<close> stores the row.
\<close>

definition matches :: "string \<Rightarrow> json \<Rightarrow> auth_user \<Rightarrow> bool" where
  "matches p pid r = (pid \<noteq> JNull \<and> provider r = p \<and> provider_user_id r = pid)"

text \<open>\<^verbatim>\<open>select("*").eq("provider", p).eq("provider_user_id", pid).execute()\<close>\<close>

definition db_select :: "db_fault \<Rightarrow> string \<Rightarrow> json \<Rightarrow> store \<Rightarrow> py_exception + auth_user list" where
  "db_select fault p pid st =
     (case fault of
        Select_Raises e \<Rightarrow> Inl e
      | _ \<Rightarrow> Inr (filter (matches p pid) st))"

text \<open>The end of a write: \<open>st'\<close> is the table with the write applied.\<close>

definition db_write :: "db_fault \<Rightarrow> store \<Rightarrow> store \<Rightarrow> (py_exception + unit) \<times> store" where
  "db_write fault st' st =
     (case fault of
        Write_Rejected e \<Rightarrow> (Inl e, st)
      | Write_Lost e \<Rightarrow> (Inl e, st')
      | _ \<Rightarrow> (Inr (), st'))"

text \<open>
  \<^verbatim>\<open>update(data).eq(...).eq(...).execute()\<close> sets every column of \<^verbatim>\<open>data\<close> in every
  matching row; \<^verbatim>\<open>insert(data).execute()\<close> adds one row.
\<close>

definition db_update :: "db_fault \<Rightarrow> auth_user \<Rightarrow> string \<Rightarrow> json \<Rightarrow> store \<Rightarrow> (py_exception + unit) \<times> store" where
  "db_update fault data p pid st =
     db_write fault (map (\<lambda>r. if matches p pid r then data else r) st) st"

definition db_insert :: "db_fault \<Rightarrow> auth_user \<Rightarrow> store \<Rightarrow> (py_exception + unit) \<times> store" where
  "db_insert fault data st = db_write fault (st @ [data]) st"

definition save_user ::
  "db_fault \<Rightarrow> timestamp \<Rightarrow> string \<Rightarrow> json \<Rightarrow> json \<Rightarrow> json \<Rightarrow> json \<Rightarrow> json \<Rightarrow> store
     \<Rightarrow> (py_exception + unit) \<times> store" where
  "save_user fault now p pid nm em picture raw st =
     (let data = \<lparr> provider = p, provider_user_id = pid, name = nm, email = em,
                   profile_picture = picture, raw_data = raw, updated_at = now \<rparr>
      in case db_select fault p pid st of
           Inl e \<Rightarrow> (Inl e, st)
         | Inr existing \<Rightarrow>
             if existing \<noteq> [] then db_update fault data p pid st
             else db_insert fault data st)"

section \<open>Requests, responses and the session\<close>

text \<open>
  What a route returns: a redirect, a rendered template with its context (the
  \<^verbatim>\<open>request\<close> entry of the context is left out), or a dictionary that FastAPI sends as
  JSON. The session is the dictionary \<^verbatim>\<open>request.session\<close>, as \<^verbatim>\<open>app.py\<close> reads and
  writes it; the entries the OAuth client library keeps there for its own anti-forgery
  state are library code and are not modelled.
\<close>

datatype response =
    RedirectResponse string
  | TemplateResponse string "(string \<times> json) list"
  | JSONResponse json

type_synonym session = "string \<rightharpoonup> json"

text \<open>
  A route either returns a response or lets an exception escape (\<open>Inl\<close>); it leaves a
  session and a store behind.
\<close>

type_synonym outcome = "(py_exception + response) \<times> session \<times> store"

text \<open>
  \<^verbatim>\<open>templates.TemplateResponse("error.html", {"request": request, "message": str(e)})\<close>
\<close>

definition error_page :: "py_exception \<Rightarrow> response" where
  "error_page e = TemplateResponse ''error.html'' [(''message'', JStr (str_exception e))]"

subsection \<open>Home and logout\<close>

definition home :: "session \<Rightarrow> store \<Rightarrow> outcome" where
  "home sess st =
     (let user = (case sess ''user'' of None \<Rightarrow> JNull | Some u \<Rightarrow> u)
      in (Inr (TemplateResponse ''home.html'' [(''user'', user)]), sess, st))"

definition logout :: "session \<Rightarrow> store \<Rightarrow> outcome" where
  "logout sess st = (Inr (RedirectResponse ''/''), Map.empty, st)"

subsection \<open>Google\<close>

text \<open>
  Each library call is made at most once in a request, and what it answers there is a
  parameter: \<open>authorize_access_token\<close> is the answer of
  \<^verbatim>\<open>oauth.google.authorize_access_token(request)\<close> (a token or an exception),
  \<open>userinfo\<close> the answer of \<^verbatim>\<open>oauth.google.userinfo(token=token)\<close> (a
  \<^verbatim>\<open>UserInfo\<close> dictionary or an exception). The whole body stands in
  \<^verbatim>\<open>try ... except Exception\<close>.
\<close>

definition auth_google ::
  "py_exception + json \<Rightarrow> py_exception + (string \<times> json) list \<Rightarrow> db_fault \<Rightarrow> timestamp
     \<Rightarrow> session \<Rightarrow> store \<Rightarrow> outcome" where
  "auth_google authorize_access_token userinfo fault now sess st =
     (case authorize_access_token of
        Inl e \<Rightarrow> (Inr (error_page e), sess, st)
      | Inr token \<Rightarrow>
          (case userinfo of
             Inl e \<Rightarrow> (Inr (error_page e), sess, st)
           | Inr user_data \<Rightarrow>
               (case save_user fault now ''google''
                       (dict_get user_data ''sub'')
                       (dict_get user_data ''name'')
                       (dict_get user_data ''email'')
                       (dict_get user_data ''picture'')
                       (JObj user_data) st of
                  (Inl e, st') \<Rightarrow> (Inr (error_page e), sess, st')
                | (Inr _, st') \<Rightarrow>
                    (Inr (RedirectResponse ''/''), sess(''user'' \<mapsto> JObj user_data), st'))))"

subsection \<open>Facebook\<close>

text \<open>
  The arguments of the call of \<^verbatim>\<open>save_user\<close>, evaluated left to right on the decoded
  answer of \<^verbatim>\<open>me?fields=id,name,email,picture\<close>, which may be any JSON value:
  \<^verbatim>\<open>user_info.get("id")\<close>, \<^verbatim>\<open>user_info.get("name")\<close>, \<^verbatim>\<open>user_info.get("email")\<close>,
  \<^verbatim>\<open>user_info.get("picture", {}).get("data", {}).get("url")\<close>.
\<close>

definition facebook_fields :: "json \<Rightarrow> py_exception + (json \<times> json \<times> json \<times> json)" where
  "facebook_fields user_info =
     (case py_get user_info ''id'' JNull of Inl e \<Rightarrow> Inl e | Inr pid \<Rightarrow>
      case py_get user_info ''name'' JNull of Inl e \<Rightarrow> Inl e | Inr nm \<Rightarrow>
      case py_get user_info ''email'' JNull of Inl e \<Rightarrow> Inl e | Inr em \<Rightarrow>
      case py_get user_info ''picture'' (JObj []) of Inl e \<Rightarrow> Inl e | Inr pic \<Rightarrow>
      case py_get pic ''data'' (JObj []) of Inl e \<Rightarrow> Inl e | Inr dat \<Rightarrow>
      case py_get dat ''url'' JNull of Inl e \<Rightarrow> Inl e | Inr url \<Rightarrow>
        Inr (pid, nm, em, url))"

text \<open>
  \<open>get_me\<close> is \<^verbatim>\<open>oauth.facebook.get(..., token=token)\<close> followed by \<^verbatim>\<open>resp.json()\<close>.
\<close>

definition auth_facebook ::
  "py_exception + json \<Rightarrow> py_exception + json \<Rightarrow> db_fault \<Rightarrow> timestamp
     \<Rightarrow> session \<Rightarrow> store \<Rightarrow> outcome" where
  "auth_facebook authorize_access_token get_me fault now sess st =
     (case authorize_access_token of
        Inl e \<Rightarrow> (Inr (error_page e), sess, st)
      | Inr token \<Rightarrow>
          (case get_me of
             Inl e \<Rightarrow> (Inr (error_page e), sess, st)
           | Inr user_info \<Rightarrow>
               (case facebook_fields user_info of
                  Inl e \<Rightarrow> (Inr (error_page e), sess, st)
                | Inr (pid, nm, em, url) \<Rightarrow>
                    (case save_user fault now ''facebook'' pid nm em url user_info st of
                       (Inl e, st') \<Rightarrow> (Inr (error_page e), sess, st')
                     | (Inr _, st') \<Rightarrow>
                         (Inr (RedirectResponse ''/''), sess(''user'' \<mapsto> user_info), st')))))"

subsection \<open>Microsoft\<close>

text \<open>
  The arguments of the call of \<^verbatim>\<open>save_user\<close> on the decoded answer of Graph's
  \<^verbatim>\<open>/me\<close>: \<^verbatim>\<open>graph_data.get("id")\<close>, \<^verbatim>\<open>graph_data.get("displayName")\<close>,
  \<^verbatim>\<open>graph_data.get("mail") or graph_data.get("userPrincipalName")\<close>; the right operand of
  \<^verbatim>\<open>or\<close> is evaluated only when the left one is false.
\<close>

definition microsoft_fields :: "json \<Rightarrow> py_exception + (json \<times> json \<times> json)" where
  "microsoft_fields graph_data =
     (case py_get graph_data ''id'' JNull of Inl e \<Rightarrow> Inl e | Inr pid \<Rightarrow>
      case py_get graph_data ''displayName'' JNull of Inl e \<Rightarrow> Inl e | Inr nm \<Rightarrow>
      case py_get graph_data ''mail'' JNull of Inl e \<Rightarrow> Inl e | Inr mail \<Rightarrow>
        if truthy mail then Inr (pid, nm, mail)
        else case py_get graph_data ''userPrincipalName'' JNull of Inl e \<Rightarrow> Inl e | Inr upn \<Rightarrow>
          Inr (pid, nm, upn))"

text \<open>
  \<open>code\<close> is \<^verbatim>\<open>request.query_params.get("code")\<close>; \<open>acquire_token\<close> is the answer of
  \<^verbatim>\<open>_build_msal_app().acquire_token_by_authorization_code(code, ...)\<close>, a dictionary or
  an exception; \<open>graph_me\<close> is the answer of \<^verbatim>\<open>requests.get(...).json()\<close> with the
  access token. The body has no \<^verbatim>\<open>try\<close>: an exception leaves the handler.
\<close>

definition auth_redirect ::
  "string option \<Rightarrow> py_exception + (string \<times> json) list \<Rightarrow> py_exception + json
     \<Rightarrow> db_fault \<Rightarrow> timestamp \<Rightarrow> session \<Rightarrow> store \<Rightarrow> outcome" where
  "auth_redirect code acquire_token graph_me fault now sess st =
     (case (case code of None \<Rightarrow> None | Some c \<Rightarrow> if c = [] then None else Some c) of
        None \<Rightarrow>
          (Inr (JSONResponse (JObj [(''error'', JStr ''Missing authorization code'')])), sess, st)
      | Some c \<Rightarrow>
          (case acquire_token of
             Inl e \<Rightarrow> (Inl e, sess, st)
           | Inr result \<Rightarrow>
               if map_of result ''error'' \<noteq> None then
                 (Inr (JSONResponse (JObj [(''error'', dict_get result ''error''),
                                           (''description'', dict_get result ''error_description'')])),
                  sess, st)
               else
                 (case map_of result ''access_token'' of
                    None \<Rightarrow> (Inl (KeyError ''access_token''), sess, st)
                  | Some access_token \<Rightarrow>
                      (case graph_me of
                         Inl e \<Rightarrow> (Inl e, sess, st)
                       | Inr graph_data \<Rightarrow>
                           (case microsoft_fields graph_data of
                              Inl e \<Rightarrow> (Inl e, sess, st)
                            | Inr (pid, nm, em) \<Rightarrow>
                                (case save_user fault now ''microsoft'' pid nm em JNull graph_data st of
                                   (Inl e, st') \<Rightarrow> (Inl e, sess, st')
                                 | (Inr _, st') \<Rightarrow>
                                     (Inr (RedirectResponse ''/''),
                                      sess(''user'' \<mapsto> graph_data), st')))))))"

section \<open>Sequences of requests\<close>

text \<open>
  One browser's requests, each with what the outside world does while it is served. The
  routes are those that touch the session's \<^verbatim>\<open>user\<close> entry or the store.
\<close>

datatype request =
    Get_auth_google "py_exception + json" "py_exception + (string \<times> json) list"
      db_fault timestamp
  | Get_auth_facebook "py_exception + json" "py_exception + json" db_fault timestamp
  | Get_auth_redirect "string option" "py_exception + (string \<times> json) list"
      "py_exception + json" db_fault timestamp
  | Get_logout
  | Get_home

fun handle :: "request \<Rightarrow> session \<Rightarrow> store \<Rightarrow> outcome" where
  "handle (Get_auth_google tok ui fault now) sess st = auth_google tok ui fault now sess st"
| "handle (Get_auth_facebook tok me fault now) sess st = auth_facebook tok me fault now sess st"
| "handle (Get_auth_redirect code acq me fault now) sess st =
     auth_redirect code acq me fault now sess st"
| "handle Get_logout sess st = logout sess st"
| "handle Get_home sess st = home sess st"

text \<open>Requests served one after the other; the answers are kept in order.\<close>

fun serve :: "request list \<Rightarrow> session \<Rightarrow> store \<Rightarrow> (py_exception + response) list \<times> session \<times> store" where
  "serve [] sess st = ([], sess, st)"
| "serve (rq # rqs) sess st =
     (case handle rq sess st of
        (rs, sess', st') \<Rightarrow>
          (case serve rqs sess' st' of
             (rss, sess'', st'') \<Rightarrow> (rs # rss, sess'', st'')))"



section \<open>The specification's notions\<close>



text \<open>
  The records of an identity: those that carry its pair (provider, provider_user_id), in
  the order of the table.
\<close>

definition has_key :: "string \<Rightarrow> json \<Rightarrow> auth_user \<Rightarrow> bool" where
  "has_key p pid r = (provider r = p \<and> provider_user_id r = pid)"

definition records_of :: "string \<Rightarrow> json \<Rightarrow> store \<Rightarrow> auth_user list" where
  "records_of p pid st = filter (has_key p pid) st"


text \<open>
  A nested path of keys in a document, as in \<^verbatim>\<open>picture.data.url\<close>: the value found by
  following the keys through nested objects, if every step exists.
\<close>

fun json_path :: "string list \<Rightarrow> json \<Rightarrow> json option" where
  "json_path [] v = Some v"
| "json_path (k # ks) (JObj d) = (case map_of d k of None \<Rightarrow> None | Some v \<Rightarrow> json_path ks v)"
| "json_path (k # ks) v = None"

text \<open>
  The e-mail rule in the specification's words: the \<^verbatim>\<open>mail\<close> value when present and
  non-null, \<^verbatim>\<open>userPrincipalName\<close> otherwise.
\<close>

definition email_when_present_and_non_null :: "(string \<times> json) list \<Rightarrow> json" where
  "email_when_present_and_non_null g =
     (case map_of g ''mail'' of
        None \<Rightarrow> dict_get g ''userPrincipalName''
      | Some m \<Rightarrow> if m \<noteq> JNull then m else dict_get g ''userPrincipalName'')"

text \<open>
  The session's state machine in the specification's words. A callback is one of the three
  \<^verbatim>\<open>/auth/...\<close> routes; it is successful when it answers with the redirect to the home
  page; the profile it produces is what the provider's profile call answered.
\<close>

fun is_callback :: "request \<Rightarrow> bool" where
  "is_callback (Get_auth_google _ _ _ _) = True"
| "is_callback (Get_auth_facebook _ _ _ _) = True"
| "is_callback (Get_auth_redirect _ _ _ _ _) = True"
| "is_callback _ = False"

fun is_logout :: "request \<Rightarrow> bool" where
  "is_logout Get_logout = True"
| "is_logout _ = False"

definition success :: "py_exception + response" where
  "success = Inr (RedirectResponse ''/'')"

fun produced_profile :: "request \<Rightarrow> json option" where
  "produced_profile (Get_auth_google tok ui _ _) =
     (case ui of Inl _ \<Rightarrow> None | Inr u \<Rightarrow> Some (JObj u))"
| "produced_profile (Get_auth_facebook tok me _ _) =
     (case me of Inl _ \<Rightarrow> None | Inr u \<Rightarrow> Some u)"
| "produced_profile (Get_auth_redirect code acq me _ _) =
     (case me of Inl _ \<Rightarrow> None | Inr u \<Rightarrow> Some u)"
| "produced_profile _ = None"

text \<open>
  The \<^verbatim>\<open>user\<close> entry after a run, read off the requests and their answers: the profile
  of the last successful callback, nothing after a logout, the entry before otherwise.
\<close>

fun user_after :: "(request \<times> (py_exception + response)) list \<Rightarrow> json option \<Rightarrow> json option" where
  "user_after [] u = u"
| "user_after ((rq, rs) # rest) u =
     user_after rest
       (if is_logout rq then None
        else if is_callback rq \<and> rs = success then produced_profile rq
        else u)"

section \<open>The identity upsert\<close>

lemma save_user_No_Fault:
  "save_user No_Fault now p pid nm em pic raw st =
     (Inr (),
      if filter (matches p pid) st \<noteq> []
      then map (\<lambda>r. if matches p pid r
                 then \<lparr> provider = p, provider_user_id = pid, name = nm, email = em,
                        profile_picture = pic, raw_data = raw, updated_at = now \<rparr>
                 else r) st
      else st @ [\<lparr> provider = p, provider_user_id = pid, name = nm, email = em,
                   profile_picture = pic, raw_data = raw, updated_at = now \<rparr>])"
  by (simp add: save_user_def db_select_def db_update_def db_insert_def db_write_def)




section \<open>Logout\<close>

text \<open>
  C6. In every session state, logout answers with a redirect to the home page and leaves
  an empty session (so no \<^verbatim>\<open>user\<close> entry) and the store as it was; the home page
  fetched next renders with no user.
\<close>

theorem logout_clears_session_and_keeps_store:
  "logout sess st = (Inr (RedirectResponse ''/''), Map.empty, st)
   \<and> fst (snd (logout sess st)) ''user'' = None
   \<and> snd (snd (logout sess st)) = st
   \<and> (case logout sess st of (_, sess', st') \<Rightarrow>
         home sess' st' = (Inr (TemplateResponse ''home.html'' [(''user'', JNull)]), Map.empty, st))"
  by (simp add: logout_def home_def)

section \<open>The Microsoft callback without a code\<close>

text \<open>
  C10. Without a \<^verbatim>\<open>code\<close> query parameter, or with an empty one, the Microsoft callback
  answers with the JSON object that has the single key \<^verbatim>\<open>error\<close> and the value
  \<^verbatim>\<open>Missing authorization code\<close>, and leaves the session and the store as they were,
  whatever the token endpoint, the Graph call and the store would have answered (a raising
  token exchange or a raising select included): none of them is called.
\<close>

theorem auth_redirect_missing_code:
  "auth_redirect None acquire_token graph_me fault now sess st =
     (Inr (JSONResponse (JObj [(''error'', JStr ''Missing authorization code'')])), sess, st)
   \<and> auth_redirect (Some []) acquire_token graph_me fault now sess st =
     (Inr (JSONResponse (JObj [(''error'', JStr ''Missing authorization code'')])), sess, st)"
  by (simp add: auth_redirect_def)

section \<open>Failed callbacks\<close>

text \<open>
  What a call of \<^verbatim>\<open>save_user\<close> leaves behind when it returns and when it raises, and
  what each handler does when a step raises (or, for Microsoft, when the token response
  carries an \<^verbatim>\<open>error\<close> key): it answers with the error and leaves the session it found,
  and the store it found unless the store applied the write and the call raised all the
  same.
\<close>

lemma save_user_returns:
  "save_user fault now p pid nm em pic raw st = (Inr u, st') \<Longrightarrow>
     fault = No_Fault \<and> st' = snd (save_user No_Fault now p pid nm em pic raw st)"
  by (cases fault)
     (auto simp: save_user_def Let_def db_select_def db_update_def db_insert_def db_write_def
           split: if_splits)

lemma save_user_raises:
  "save_user fault now p pid nm em pic raw st = (Inl e, st') \<Longrightarrow>
     st' = st \<or> ((\<exists>e'. fault = Write_Lost e') \<and>
                 st' = snd (save_user No_Fault now p pid nm em pic raw st))"
  by (cases fault)
     (auto simp: save_user_def Let_def db_select_def db_update_def db_insert_def db_write_def
           split: if_splits)

lemma auth_google_step_raises:
  "auth_google (Inl e) ui fault now sess st = (Inr (error_page e), sess, st)"
  "auth_google (Inr t) (Inl e) fault now sess st = (Inr (error_page e), sess, st)"
  "save_user fault now ''google'' (dict_get u ''sub'') (dict_get u ''name'')
      (dict_get u ''email'') (dict_get u ''picture'') (JObj u) st = (Inl e, st') \<Longrightarrow>
   auth_google (Inr t) (Inr u) fault now sess st = (Inr (error_page e), sess, st')"
  by (simp_all add: auth_google_def)

lemma auth_facebook_step_raises:
  "auth_facebook (Inl e) me fault now sess st = (Inr (error_page e), sess, st)"
  "auth_facebook (Inr t) (Inl e) fault now sess st = (Inr (error_page e), sess, st)"
  "facebook_fields g = Inl e \<Longrightarrow>
   auth_facebook (Inr t) (Inr g) fault now sess st = (Inr (error_page e), sess, st)"
  "facebook_fields g = Inr (pid, nm, em, url) \<Longrightarrow>
   save_user fault now ''facebook'' pid nm em url g st = (Inl e, st') \<Longrightarrow>
   auth_facebook (Inr t) (Inr g) fault now sess st = (Inr (error_page e), sess, st')"
  by (simp_all add: auth_facebook_def)

lemma auth_redirect_step_raises:
  "c \<noteq> [] \<Longrightarrow> auth_redirect (Some c) (Inl e) me fault now sess st = (Inl e, sess, st)"
  "c \<noteq> [] \<Longrightarrow> map_of result ''error'' = Some x \<Longrightarrow>
   auth_redirect (Some c) (Inr result) me fault now sess st =
     (Inr (JSONResponse (JObj [(''error'', x),
                               (''description'', dict_get result ''error_description'')])),
      sess, st)"
  "c \<noteq> [] \<Longrightarrow> map_of result ''error'' = None \<Longrightarrow> map_of result ''access_token'' = None \<Longrightarrow>
   auth_redirect (Some c) (Inr result) me fault now sess st =
     (Inl (KeyError ''access_token''), sess, st)"
  "c \<noteq> [] \<Longrightarrow> map_of result ''error'' = None \<Longrightarrow> map_of result ''access_token'' = Some a \<Longrightarrow>
   auth_redirect (Some c) (Inr result) (Inl e) fault now sess st = (Inl e, sess, st)"
  "c \<noteq> [] \<Longrightarrow> map_of result ''error'' = None \<Longrightarrow> map_of result ''access_token'' = Some a \<Longrightarrow>
   microsoft_fields g = Inl e \<Longrightarrow>
   auth_redirect (Some c) (Inr result) (Inr g) fault now sess st = (Inl e, sess, st)"
  "c \<noteq> [] \<Longrightarrow> map_of result ''error'' = None \<Longrightarrow> map_of result ''access_token'' = Some a \<Longrightarrow>
   microsoft_fields g = Inr (pid, nm, em) \<Longrightarrow>
   save_user fault now ''microsoft'' pid nm em JNull g st = (Inl e, st') \<Longrightarrow>
   auth_redirect (Some c) (Inr result) (Inr g) fault now sess st = (Inl e, sess, st')"
  by (simp_all add: auth_redirect_def dict_get_def)


section \<open>The session's state machine\<close>

lemma handle_user_entry:
  "handle rq sess st = (rs, sess', st') \<Longrightarrow>
     sess' ''user'' =
       (if is_logout rq then None
        else if is_callback rq \<and> rs = success then produced_profile rq
        else sess ''user'')"
proof (cases rq)
  case (Get_auth_google tok ui fault now)
  assume "handle rq sess st = (rs, sess', st')"
  with Get_auth_google show ?thesis
    by (auto simp: auth_google_def success_def error_page_def split: sum.splits prod.splits)
next
  case (Get_auth_facebook tok me fault now)
  assume "handle rq sess st = (rs, sess', st')"
  with Get_auth_facebook show ?thesis
    by (auto simp: auth_facebook_def success_def error_page_def split: sum.splits prod.splits)
next
  case (Get_auth_redirect code acq me fault now)
  assume "handle rq sess st = (rs, sess', st')"
  with Get_auth_redirect show ?thesis
    by (auto simp: auth_redirect_def success_def error_page_def
             split: sum.splits prod.splits option.splits if_splits)
next
  case Get_logout
  assume "handle rq sess st = (rs, sess', st')"
  with Get_logout show ?thesis
    by (auto simp: logout_def)
next
  case Get_home
  assume "handle rq sess st = (rs, sess', st')"
  with Get_home show ?thesis
    by (auto simp: home_def Let_def)
qed

lemma handle_success_overwrites:
  "is_callback rq \<Longrightarrow> handle rq sess st = (success, sess', st') \<Longrightarrow>
     \<exists>p. produced_profile rq = Some p \<and> sess' = sess(''user'' \<mapsto> p)"
proof (cases rq)
  case (Get_auth_google tok ui fault now)
  assume "handle rq sess st = (success, sess', st')"
  with Get_auth_google show ?thesis
    by (auto simp: auth_google_def success_def error_page_def split: sum.splits prod.splits)
next
  case (Get_auth_facebook tok me fault now)
  assume "handle rq sess st = (success, sess', st')"
  with Get_auth_facebook show ?thesis
    by (auto simp: auth_facebook_def success_def error_page_def split: sum.splits prod.splits)
next
  case (Get_auth_redirect code acq me fault now)
  assume "handle rq sess st = (success, sess', st')"
  with Get_auth_redirect show ?thesis
    by (auto simp: auth_redirect_def success_def error_page_def
             split: sum.splits prod.splits option.splits if_splits)
next
  case Get_logout
  assume "is_callback rq"
  with Get_logout show ?thesis by simp
next
  case Get_home
  assume "is_callback rq"
  with Get_home show ?thesis by simp
qed

lemma serve_user_entry:
  "serve rqs sess st = (rss, sess', st') \<Longrightarrow>
     length rss = length rqs \<and> sess' ''user'' = user_after (zip rqs rss) (sess ''user'')"
proof (induction rqs arbitrary: sess st rss sess' st')
  case Nil
  then show ?case by simp
next
  case (Cons rq rqs)
  obtain rs s1 t1 where h: "handle rq sess st = (rs, s1, t1)"
    by (cases "handle rq sess st") auto
  obtain rss1 s2 t2 where r: "serve rqs s1 t1 = (rss1, s2, t2)"
    by (cases "serve rqs s1 t1") auto
  from Cons.prems h r have eq: "rss = rs # rss1" "sess' = s2" by simp_all
  from Cons.IH [OF r] have ih: "length rss1 = length rqs"
    "s2 ''user'' = user_after (zip rqs rss1) (s1 ''user'')" by simp_all
  from handle_user_entry [OF h] ih eq show ?case by simp
qed

text \<open>
  C5. The session maps \<^verbatim>\<open>user\<close> to at most one value. From any session, a successful
  callback leaves the session with \<^verbatim>\<open>user\<close> set to exactly the profile its provider
  returned (the entry before plays no part) and nothing else changed; logout leaves the
  empty session; and after any sequence of requests the \<^verbatim>\<open>user\<close> entry is the profile
  of the last successful callback with no logout after it, absent when a logout came last,
  and the entry the run started with (none for an anonymous visitor) when the run has
  neither.
\<close>

theorem session_state_machine:
  "(is_callback rq \<and> fst (handle rq sess st) = success \<longrightarrow>
      (\<exists>p. produced_profile rq = Some p \<and> fst (snd (handle rq sess st)) = sess(''user'' \<mapsto> p)))
   \<and> fst (snd (handle Get_logout sess st)) = Map.empty
   \<and> length (fst (serve rqs sess st)) = length rqs
   \<and> fst (snd (serve rqs sess st)) ''user'' =
       user_after (zip rqs (fst (serve rqs sess st))) (sess ''user'')"
proof -
  have a: "is_callback rq \<and> fst (handle rq sess st) = success \<longrightarrow>
      (\<exists>p. produced_profile rq = Some p \<and> fst (snd (handle rq sess st)) = sess(''user'' \<mapsto> p))"
    using handle_success_overwrites [of rq sess st "fst (snd (handle rq sess st))"
        "snd (snd (handle rq sess st))"]
    by (cases "handle rq sess st") auto
  have b: "fst (snd (handle Get_logout sess st)) = Map.empty"
    by (simp add: logout_def)
  have c: "length (fst (serve rqs sess st)) = length rqs \<and>
      fst (snd (serve rqs sess st)) ''user'' =
        user_after (zip rqs (fst (serve rqs sess st))) (sess ''user'')"
    using serve_user_entry [of rqs sess st "fst (serve rqs sess st)"
        "fst (snd (serve rqs sess st))" "snd (snd (serve rqs sess st))"]
    by simp
  from a b c show ?thesis by simp
qed

theorem session_state_machine_witness:
  "is_callback (Get_auth_google (Inr (JStr ''tok'')) (Inr [(''sub'', JStr ''g1'')]) No_Fault 5)
   \<and> fst (handle (Get_auth_google (Inr (JStr ''tok'')) (Inr [(''sub'', JStr ''g1'')]) No_Fault 5)
           [''user'' \<mapsto> JObj [(''id'', JStr ''f1''), (''name'', JStr ''A'')]] []) = success
   \<and> fst (snd (handle (Get_auth_google (Inr (JStr ''tok'')) (Inr [(''sub'', JStr ''g1'')]) No_Fault 5)
           [''user'' \<mapsto> JObj [(''id'', JStr ''f1''), (''name'', JStr ''A'')]] []))
       = [''user'' \<mapsto> JObj [(''sub'', JStr ''g1'')]]
   \<and> fst (snd (serve
         [Get_auth_google (Inr (JStr ''tok'')) (Inr [(''sub'', JStr ''g1'')]) No_Fault 5,
          Get_logout,
          Get_auth_redirect (Some ''abc'') (Inr [(''access_token'', JStr ''t'')])
            (Inr (JObj [(''id'', JStr ''m1'')])) No_Fault 6,
          Get_auth_facebook (Inl (ExternalError ''denied'')) (Inr (JObj [(''id'', JStr ''f1'')]))
            No_Fault 7,
          Get_home]
         Map.empty [])) ''user'' = Some (JObj [(''id'', JStr ''m1'')])"
  using session_state_machine
    [of "Get_auth_google (Inr (JStr ''tok'')) (Inr [(''sub'', JStr ''g1'')]) No_Fault 5"
        "[''user'' \<mapsto> JObj [(''id'', JStr ''f1''), (''name'', JStr ''A'')]]" "[]" "[]"]
    session_state_machine
    [of Get_home Map.empty "[]"
        "[Get_auth_google (Inr (JStr ''tok'')) (Inr [(''sub'', JStr ''g1'')]) No_Fault 5,
          Get_logout,
          Get_auth_redirect (Some ''abc'') (Inr [(''access_token'', JStr ''t'')])
            (Inr (JObj [(''id'', JStr ''m1'')])) No_Fault 6,
          Get_auth_facebook (Inl (ExternalError ''denied'')) (Inr (JObj [(''id'', JStr ''f1'')]))
            No_Fault 7,
          Get_home]"]
  by (simp add: auth_google_def auth_facebook_def auth_redirect_def microsoft_fields_def
        logout_def home_def
        save_user_def db_select_def db_insert_def db_update_def db_write_def
        success_def error_page_def dict_get_def Let_def)

section \<open>Exceptions in the callback handlers\<close>

text \<open>
  The Google and the Facebook handler answer every request with a response: each exception
  of the token exchange, the profile call, the normalization and the upsert ends as the
  error page.
\<close>

lemma auth_google_never_raises:
  "\<exists>r. fst (auth_google tok ui fault now sess st) = Inr r"
  by (auto simp: auth_google_def split: sum.splits prod.splits)

lemma auth_facebook_never_raises:
  "\<exists>r. fst (auth_facebook tok me fault now sess st) = Inr r"
  by (auto simp: auth_facebook_def split: sum.splits prod.splits)

text \<open>
  C3. The Microsoft handler has no handler for exceptions: with a code in the request, an
  exception of the Graph call, of the token exchange or of the store leaves
  \<^verbatim>\<open>auth_redirect\<close> instead of being rendered as a JSON error.
\<close>

theorem auth_redirect_lets_exception_escape:
  "auth_redirect (Some ''abc'') (Inr [(''access_token'', JStr ''t'')])
     (Inl (ExternalError ''connection refused'')) No_Fault 5 Map.empty []
   = (Inl (ExternalError ''connection refused''), Map.empty, [])
   \<and> auth_redirect (Some ''abc'') (Inl (ExternalError ''timeout''))
     (Inr (JObj [])) No_Fault 5 Map.empty []
   = (Inl (ExternalError ''timeout''), Map.empty, [])
   \<and> auth_redirect (Some ''abc'') (Inr [(''access_token'', JStr ''t'')])
     (Inr (JObj [(''id'', JStr ''m1'')])) (Select_Raises (ExternalError ''503'')) 5 Map.empty []
   = (Inl (ExternalError ''503''), Map.empty, [])"
  by (simp add: auth_redirect_def microsoft_fields_def save_user_def db_select_def Let_def)

section \<open>One record per identity\<close>









text \<open>
  The records of the identity after a call that the store answered: there is one, the last
  of them is the record of the call, and for a \<^verbatim>\<open>provider_id\<close> that is not \<^verbatim>\<open>None\<close> all of
  them are.
\<close>

lemma save_user_records:
  "records_of p pid (snd (save_user No_Fault now p pid nm em pic raw st)) \<noteq> []
   \<and> last (records_of p pid (snd (save_user No_Fault now p pid nm em pic raw st)))
       = \<lparr> provider = p, provider_user_id = pid, name = nm, email = em,
            profile_picture = pic, raw_data = raw, updated_at = now \<rparr>
   \<and> (pid \<noteq> JNull \<longrightarrow>
        (\<forall>r \<in> set (records_of p pid (snd (save_user No_Fault now p pid nm em pic raw st))).
           r = \<lparr> provider = p, provider_user_id = pid, name = nm, email = em,
                  profile_picture = pic, raw_data = raw, updated_at = now \<rparr>))"
proof -
  let ?d = "\<lparr> provider = p, provider_user_id = pid, name = nm, email = em,
              profile_picture = pic, raw_data = raw, updated_at = now \<rparr>"
  let ?f = "\<lambda>r. if matches p pid r then ?d else r"
  have d: "has_key p pid ?d" by (simp add: has_key_def)
  show ?thesis
  proof (cases "filter (matches p pid) st = []")
    case True
    then have st': "snd (save_user No_Fault now p pid nm em pic raw st) = st @ [?d]"
      by (simp add: save_user_No_Fault)
    have app: "records_of p pid (st @ [?d]) = records_of p pid st @ [?d]"
      using d by (simp add: records_of_def)
    have "records_of p pid st = []" if "pid \<noteq> JNull"
      using True that by (auto simp: records_of_def filter_empty_conv matches_def has_key_def)
    with st' app show ?thesis by simp
  next
    case False
    then have st': "snd (save_user No_Fault now p pid nm em pic raw st) = map ?f st"
      by (simp add: save_user_No_Fault)
    from False obtain x where x: "x \<in> set st" "matches p pid x"
      by (auto simp: filter_empty_conv)
    have "?d \<in> set (map ?f st)"
      unfolding set_map image_iff using x by (intro bexI [of _ x]) simp_all
    with d have ne: "records_of p pid (map ?f st) \<noteq> []"
      unfolding records_of_def filter_empty_conv by blast
    from x have "pid \<noteq> JNull" by (simp add: matches_def)
    then have al: "\<forall>r \<in> set (records_of p pid (map ?f st)). r = ?d"
      unfolding records_of_def by (auto simp: has_key_def matches_def split: if_splits)
    from ne have "last (records_of p pid (map ?f st)) \<in> set (records_of p pid (map ?f st))"
      by (rule last_in_set)
    with al have "last (records_of p pid (map ?f st)) = ?d" by blast
    with st' ne al show ?thesis by simp
  qed
qed

lemma save_user_written:
  assumes "st' = snd (save_user No_Fault now p pid nm em pic raw st)"
  shows "records_of p pid st' \<noteq> []"
    and "last (records_of p pid st')
       = \<lparr> provider = p, provider_user_id = pid, name = nm, email = em,
            profile_picture = pic, raw_data = raw, updated_at = now \<rparr>"
    and "\<And>r. pid \<noteq> JNull \<Longrightarrow> r \<in> set (records_of p pid st') \<Longrightarrow>
           r = \<lparr> provider = p, provider_user_id = pid, name = nm, email = em,
                  profile_picture = pic, raw_data = raw, updated_at = now \<rparr>"
  unfolding assms using save_user_records [of p pid now nm em pic raw st] by blast+













section \<open>Normalization of the Facebook profile\<close>

lemma facebook_fields_Inr:
  assumes "facebook_fields g = Inr (pid, nm, em, url)"
  shows "\<exists>d. g = JObj d \<and> pid = dict_get d ''id'' \<and> nm = dict_get d ''name''
           \<and> em = dict_get d ''email''
           \<and> url = (case json_path [''picture'', ''data'', ''url''] g of
                      None \<Rightarrow> JNull | Some v \<Rightarrow> v)"
proof (cases g)
  case (JObj d)
  show ?thesis
  proof (cases "map_of d ''picture''")
    case None
    with JObj assms show ?thesis
      by (simp add: facebook_fields_def dict_get_def)
  next
    case (Some pic)
    note pic = Some
    show ?thesis
    proof (cases pic)
      case (JObj pd)
      note pd = JObj
      show ?thesis
      proof (cases "map_of pd ''data''")
        case None
        with \<open>g = JObj d\<close> pic pd assms show ?thesis
          by (simp add: facebook_fields_def dict_get_def)
      next
        case (Some dat)
        with \<open>g = JObj d\<close> pic pd assms show ?thesis
          by (cases dat) (auto simp: facebook_fields_def dict_get_def split: option.splits)
      qed
    qed (use \<open>g = JObj d\<close> pic assms in \<open>simp_all add: facebook_fields_def\<close>)
  qed
qed (use assms in \<open>simp_all add: facebook_fields_def\<close>)

lemma facebook_fields_path:
  assumes "json_path [''picture'', ''data'', ''url''] (JObj d) = Some v"
  shows "facebook_fields (JObj d) = Inr (dict_get d ''id'', dict_get d ''name'', dict_get d ''email'', v)"
proof -
  from assms obtain pic where pic: "map_of d ''picture'' = Some pic"
    and p1: "json_path [''data'', ''url''] pic = Some v"
    by (auto split: option.splits)
  from p1 obtain pd where pd: "pic = JObj pd" by (cases pic) simp_all
  from p1 pd obtain dat where dat: "map_of pd ''data'' = Some dat"
    and p2: "json_path [''url''] dat = Some v"
    by (auto split: option.splits)
  from p2 obtain dd where dd: "dat = JObj dd" by (cases dat) simp_all
  from p2 dd have url: "map_of dd ''url'' = Some v"
    by (auto split: option.splits)
  from pic pd dat dd url show ?thesis
    by (simp add: facebook_fields_def dict_get_def)
qed

lemma auth_facebook_success:
  assumes "auth_facebook tok me fault now sess st = (success, sess', st')"
  shows "\<exists>g pid nm em url. me = Inr g \<and> facebook_fields g = Inr (pid, nm, em, url)
           \<and> st' = snd (save_user No_Fault now ''facebook'' pid nm em url g st)"
  using assms unfolding auth_facebook_def success_def
  by (auto simp: error_page_def split: sum.splits prod.splits dest: save_user_returns)

lemma auth_facebook_success_records:
  assumes "fst (auth_facebook tok me fault now sess st) = success"
  obtains d where "me = Inr (JObj d)"
    and "records_of ''facebook'' (dict_get d ''id'')
           (snd (snd (auth_facebook tok me fault now sess st))) \<noteq> []"
    and "profile_picture (last (records_of ''facebook'' (dict_get d ''id'')
           (snd (snd (auth_facebook tok me fault now sess st))))) =
             (case json_path [''picture'', ''data'', ''url''] (JObj d) of
                None \<Rightarrow> JNull | Some v \<Rightarrow> v)"
    and "\<And>r. dict_get d ''id'' \<noteq> JNull \<Longrightarrow>
           r \<in> set (records_of ''facebook'' (dict_get d ''id'')
                      (snd (snd (auth_facebook tok me fault now sess st)))) \<Longrightarrow>
           profile_picture r =
             (case json_path [''picture'', ''data'', ''url''] (JObj d) of
                None \<Rightarrow> JNull | Some v \<Rightarrow> v)"
proof -
  define st' where "st' = snd (snd (auth_facebook tok me fault now sess st))"
  from assms have "auth_facebook tok me fault now sess st
      = (success, fst (snd (auth_facebook tok me fault now sess st)), st')"
    unfolding st'_def by (cases "auth_facebook tok me fault now sess st") simp
  from auth_facebook_success [OF this]
  obtain g pid nm em url where g: "me = Inr g"
    and f: "facebook_fields g = Inr (pid, nm, em, url)"
    and s: "st' = snd (save_user No_Fault now ''facebook'' pid nm em url g st)"
    by blast
  from facebook_fields_Inr [OF f] obtain d where d: "g = JObj d" and pid: "pid = dict_get d ''id''"
    and url: "url = (case json_path [''picture'', ''data'', ''url''] g of
                       None \<Rightarrow> JNull | Some v \<Rightarrow> v)"
    by blast
  note r = save_user_written [OF s]
  show ?thesis
  proof (rule that [of d])
    show "me = Inr (JObj d)" using g d by simp
    show "records_of ''facebook'' (dict_get d ''id'')
           (snd (snd (auth_facebook tok me fault now sess st))) \<noteq> []"
      using r(1) pid by (simp add: st'_def)
    show "profile_picture (last (records_of ''facebook'' (dict_get d ''id'')
           (snd (snd (auth_facebook tok me fault now sess st))))) =
             (case json_path [''picture'', ''data'', ''url''] (JObj d) of
                None \<Rightarrow> JNull | Some v \<Rightarrow> v)"
      using r(2) pid url d by (simp add: st'_def)
    show "profile_picture r =
             (case json_path [''picture'', ''data'', ''url''] (JObj d) of
                None \<Rightarrow> JNull | Some v \<Rightarrow> v)"
      if "dict_get d ''id'' \<noteq> JNull"
        and "r \<in> set (records_of ''facebook'' (dict_get d ''id'')
                      (snd (snd (auth_facebook tok me fault now sess st))))" for r
      using r(3) [of r] that pid url d by (simp add: st'_def)
  qed
qed

text \<open>
  C7. The Facebook callback stores the profile
  \<^verbatim>\<open>{"id":"f1","name":"A","email":"a@x.com","picture":{"data":{"url":"http://img"}}}\<close>
  as a record with picture \<^verbatim>\<open>http://img\<close>. In general, whenever the Facebook callback
  succeeds, the identity it wrote has a record, the picture of the last of its records
  (the one this callback wrote) is the value at the nested path \<^verbatim>\<open>picture.data.url\<close> of
  the profile (\<^verbatim>\<open>None\<close> when the profile has no such path), and when the profile has an
  id the picture of each of its records is; and a profile that has the path is normalized
  without an exception, with that value as its picture.
\<close>

theorem facebook_picture_from_nested_path:
  "auth_facebook (Inr tk)
      (Inr (JObj [(''id'', JStr ''f1''), (''name'', JStr ''A''), (''email'', JStr ''a@x.com''),
                  (''picture'', JObj [(''data'', JObj [(''url'', JStr ''http://img'')])])]))
      No_Fault now sess []
    = (success,
       sess(''user'' \<mapsto>
          JObj [(''id'', JStr ''f1''), (''name'', JStr ''A''), (''email'', JStr ''a@x.com''),
                (''picture'', JObj [(''data'', JObj [(''url'', JStr ''http://img'')])])]),
       [\<lparr> provider = ''facebook'', provider_user_id = JStr ''f1'', name = JStr ''A'',
          email = JStr ''a@x.com'', profile_picture = JStr ''http://img'',
          raw_data =
            JObj [(''id'', JStr ''f1''), (''name'', JStr ''A''), (''email'', JStr ''a@x.com''),
                  (''picture'', JObj [(''data'', JObj [(''url'', JStr ''http://img'')])])],
          updated_at = now \<rparr>])
   \<and> (fst (auth_facebook tok me fault now sess st) = success \<longrightarrow>
        (\<exists>d. me = Inr (JObj d)
           \<and> records_of ''facebook'' (dict_get d ''id'')
                 (snd (snd (auth_facebook tok me fault now sess st))) \<noteq> []
           \<and> profile_picture (last (records_of ''facebook'' (dict_get d ''id'')
                 (snd (snd (auth_facebook tok me fault now sess st))))) =
                   (case json_path [''picture'', ''data'', ''url''] (JObj d) of
                      None \<Rightarrow> JNull | Some v \<Rightarrow> v)
           \<and> (dict_get d ''id'' \<noteq> JNull \<longrightarrow>
                (\<forall>r \<in> set (records_of ''facebook'' (dict_get d ''id'')
                            (snd (snd (auth_facebook tok me fault now sess st)))).
                 profile_picture r =
                   (case json_path [''picture'', ''data'', ''url''] (JObj d) of
                      None \<Rightarrow> JNull | Some v \<Rightarrow> v)))))
   \<and> (json_path [''picture'', ''data'', ''url''] (JObj d') = Some v \<longrightarrow>
        facebook_fields (JObj d') =
          Inr (dict_get d' ''id'', dict_get d' ''name'', dict_get d' ''email'', v))"
proof (intro conjI impI)
  show "auth_facebook (Inr tk)
      (Inr (JObj [(''id'', JStr ''f1''), (''name'', JStr ''A''), (''email'', JStr ''a@x.com''),
                  (''picture'', JObj [(''data'', JObj [(''url'', JStr ''http://img'')])])]))
      No_Fault now sess []
    = (success,
       sess(''user'' \<mapsto>
          JObj [(''id'', JStr ''f1''), (''name'', JStr ''A''), (''email'', JStr ''a@x.com''),
                (''picture'', JObj [(''data'', JObj [(''url'', JStr ''http://img'')])])]),
       [\<lparr> provider = ''facebook'', provider_user_id = JStr ''f1'', name = JStr ''A'',
          email = JStr ''a@x.com'', profile_picture = JStr ''http://img'',
          raw_data =
            JObj [(''id'', JStr ''f1''), (''name'', JStr ''A''), (''email'', JStr ''a@x.com''),
                  (''picture'', JObj [(''data'', JObj [(''url'', JStr ''http://img'')])])],
          updated_at = now \<rparr>])"
    by (simp add: auth_facebook_def facebook_fields_def save_user_No_Fault success_def)
next
  assume "fst (auth_facebook tok me fault now sess st) = success"
  from auth_facebook_success_records [OF this]
  obtain d where d: "me = Inr (JObj d)"
    "records_of ''facebook'' (dict_get d ''id'')
           (snd (snd (auth_facebook tok me fault now sess st))) \<noteq> []"
    "profile_picture (last (records_of ''facebook'' (dict_get d ''id'')
           (snd (snd (auth_facebook tok me fault now sess st))))) =
             (case json_path [''picture'', ''data'', ''url''] (JObj d) of
                None \<Rightarrow> JNull | Some v \<Rightarrow> v)"
    "\<And>r. dict_get d ''id'' \<noteq> JNull \<Longrightarrow>
           r \<in> set (records_of ''facebook'' (dict_get d ''id'')
                      (snd (snd (auth_facebook tok me fault now sess st)))) \<Longrightarrow>
           profile_picture r =
             (case json_path [''picture'', ''data'', ''url''] (JObj d) of
                None \<Rightarrow> JNull | Some v \<Rightarrow> v)"
    by blast
  show "\<exists>d. me = Inr (JObj d)
           \<and> records_of ''facebook'' (dict_get d ''id'')
                 (snd (snd (auth_facebook tok me fault now sess st))) \<noteq> []
           \<and> profile_picture (last (records_of ''facebook'' (dict_get d ''id'')
                 (snd (snd (auth_facebook tok me fault now sess st))))) =
                   (case json_path [''picture'', ''data'', ''url''] (JObj d) of
                      None \<Rightarrow> JNull | Some v \<Rightarrow> v)
           \<and> (dict_get d ''id'' \<noteq> JNull \<longrightarrow>
                (\<forall>r \<in> set (records_of ''facebook'' (dict_get d ''id'')
                            (snd (snd (auth_facebook tok me fault now sess st)))).
                 profile_picture r =
                   (case json_path [''picture'', ''data'', ''url''] (JObj d) of
                      None \<Rightarrow> JNull | Some v \<Rightarrow> v)))"
    apply (intro exI [of _ d] conjI impI ballI)
       apply (rule d(1))
      apply (rule d(2))
     apply (rule d(3))
    apply (erule (1) d(4))
    done
next
  assume "json_path [''picture'', ''data'', ''url''] (JObj d') = Some v"
  then show "facebook_fields (JObj d') =
          Inr (dict_get d' ''id'', dict_get d' ''name'', dict_get d' ''email'', v)"
    by (rule facebook_fields_path)
qed

theorem facebook_picture_from_nested_path_witness:
  "fst (auth_facebook (Inr (JStr ''tok''))
          (Inr (JObj [(''id'', JStr ''f2''),
                      (''picture'', JObj [(''data'', JObj [(''url'', JStr ''http://p'')])])]))
          No_Fault 9 Map.empty
          [\<lparr> provider = ''facebook'', provider_user_id = JStr ''f2'', name = JNull,
             email = JNull, profile_picture = JStr ''http://old'', raw_data = JObj [],
             updated_at = 2 \<rparr>]) = success
   \<and> map profile_picture (records_of ''facebook'' (JStr ''f2'')
         (snd (snd (auth_facebook (Inr (JStr ''tok''))
          (Inr (JObj [(''id'', JStr ''f2''),
                      (''picture'', JObj [(''data'', JObj [(''url'', JStr ''http://p'')])])]))
          No_Fault 9 Map.empty
          [\<lparr> provider = ''facebook'', provider_user_id = JStr ''f2'', name = JNull,
             email = JNull, profile_picture = JStr ''http://old'', raw_data = JObj [],
             updated_at = 2 \<rparr>])))) = [JStr ''http://p'']
   \<and> json_path [''picture'', ''data'', ''url'']
         (JObj [(''id'', JStr ''f2''),
                (''picture'', JObj [(''data'', JObj [(''url'', JStr ''http://p'')])])])
       = Some (JStr ''http://p'')
   \<and> facebook_fields
         (JObj [(''id'', JStr ''f2''),
                (''picture'', JObj [(''data'', JObj [(''url'', JStr ''http://p'')])])])
       = Inr (JStr ''f2'', JNull, JNull, JStr ''http://p'')"
  using facebook_picture_from_nested_path
    [where tok = "Inr (JStr ''tok'')"
       and me = "Inr (JObj [(''id'', JStr ''f2''),
                      (''picture'', JObj [(''data'', JObj [(''url'', JStr ''http://p'')])])])"
       and fault = No_Fault and now = 9 and sess = Map.empty
       and st = "[\<lparr> provider = ''facebook'', provider_user_id = JStr ''f2'', name = JNull,
             email = JNull, profile_picture = JStr ''http://old'', raw_data = JObj [],
             updated_at = 2 \<rparr>]"
       and d' = "[(''id'', JStr ''f2''),
                (''picture'', JObj [(''data'', JObj [(''url'', JStr ''http://p'')])])]"
       and v = "JStr ''http://p''"]
  by (simp add: auth_facebook_def facebook_fields_def save_user_No_Fault success_def
        records_of_def has_key_def matches_def dict_get_def)

section \<open>Normalization of the Microsoft profile\<close>

lemma microsoft_fields_Inr:
  assumes "microsoft_fields g = Inr (pid, nm, em)"
  shows "\<exists>d. g = JObj d \<and> pid = dict_get d ''id'' \<and> nm = dict_get d ''displayName''
           \<and> em = (if truthy (dict_get d ''mail'') then dict_get d ''mail''
                   else dict_get d ''userPrincipalName'')"
  using assms
  by (cases g) (auto simp: microsoft_fields_def dict_get_def split: if_splits)

lemma auth_redirect_success:
  assumes "auth_redirect code acq me fault now sess st = (success, sess', st')"
  shows "\<exists>g pid nm em. me = Inr g \<and> microsoft_fields g = Inr (pid, nm, em)
           \<and> st' = snd (save_user No_Fault now ''microsoft'' pid nm em JNull g st)"
  using assms unfolding auth_redirect_def success_def
  by (auto split: sum.splits prod.splits option.splits if_splits dest: save_user_returns)

lemma auth_redirect_success_records:
  assumes "fst (auth_redirect code acq me fault now sess st) = success"
  obtains d where "me = Inr (JObj d)"
    and "records_of ''microsoft'' (dict_get d ''id'')
           (snd (snd (auth_redirect code acq me fault now sess st))) \<noteq> []"
    and "last (records_of ''microsoft'' (dict_get d ''id'')
           (snd (snd (auth_redirect code acq me fault now sess st))))
         = \<lparr> provider = ''microsoft'', provider_user_id = dict_get d ''id'',
              name = dict_get d ''displayName'',
              email = (if truthy (dict_get d ''mail'') then dict_get d ''mail''
                       else dict_get d ''userPrincipalName''),
              profile_picture = JNull, raw_data = JObj d, updated_at = now \<rparr>"
    and "\<And>r. dict_get d ''id'' \<noteq> JNull \<Longrightarrow>
           r \<in> set (records_of ''microsoft'' (dict_get d ''id'')
                      (snd (snd (auth_redirect code acq me fault now sess st)))) \<Longrightarrow>
           r = \<lparr> provider = ''microsoft'', provider_user_id = dict_get d ''id'',
                  name = dict_get d ''displayName'',
                  email = (if truthy (dict_get d ''mail'') then dict_get d ''mail''
                           else dict_get d ''userPrincipalName''),
                  profile_picture = JNull, raw_data = JObj d, updated_at = now \<rparr>"
proof -
  define st' where "st' = snd (snd (auth_redirect code acq me fault now sess st))"
  from assms have "auth_redirect code acq me fault now sess st
      = (success, fst (snd (auth_redirect code acq me fault now sess st)), st')"
    unfolding st'_def by (cases "auth_redirect code acq me fault now sess st") simp
  from auth_redirect_success [OF this]
  obtain g pid nm em where g: "me = Inr g"
    and f: "microsoft_fields g = Inr (pid, nm, em)"
    and s: "st' = snd (save_user No_Fault now ''microsoft'' pid nm em JNull g st)"
    by blast
  from microsoft_fields_Inr [OF f] obtain d where d: "g = JObj d" and pid: "pid = dict_get d ''id''"
    and nm: "nm = dict_get d ''displayName''"
    and em: "em = (if truthy (dict_get d ''mail'') then dict_get d ''mail''
                   else dict_get d ''userPrincipalName'')"
    by blast
  note r = save_user_written [OF s]
  show ?thesis
  proof (rule that [of d])
    show "me = Inr (JObj d)" using g d by simp
    show "records_of ''microsoft'' (dict_get d ''id'')
           (snd (snd (auth_redirect code acq me fault now sess st))) \<noteq> []"
      using r(1) pid by (simp add: st'_def)
    show "last (records_of ''microsoft'' (dict_get d ''id'')
           (snd (snd (auth_redirect code acq me fault now sess st))))
         = \<lparr> provider = ''microsoft'', provider_user_id = dict_get d ''id'',
              name = dict_get d ''displayName'',
              email = (if truthy (dict_get d ''mail'') then dict_get d ''mail''
                       else dict_get d ''userPrincipalName''),
              profile_picture = JNull, raw_data = JObj d, updated_at = now \<rparr>"
      using r(2) pid nm em d by (simp add: st'_def)
    show "r = \<lparr> provider = ''microsoft'', provider_user_id = dict_get d ''id'',
                  name = dict_get d ''displayName'',
                  email = (if truthy (dict_get d ''mail'') then dict_get d ''mail''
                           else dict_get d ''userPrincipalName''),
                  profile_picture = JNull, raw_data = JObj d, updated_at = now \<rparr>"
      if "dict_get d ''id'' \<noteq> JNull"
        and "r \<in> set (records_of ''microsoft'' (dict_get d ''id'')
                      (snd (snd (auth_redirect code acq me fault now sess st))))" for r
      using r(3) [of r] that pid nm em d by (simp add: st'_def)
  qed
qed

text \<open>
  C8, as the code has it. The Microsoft callback stores a profile with \<^verbatim>\<open>mail: null\<close> and
  \<^verbatim>\<open>userPrincipalName: "a@x.com"\<close> with e-mail \<^verbatim>\<open>a@x.com\<close>. In general, whenever the
  Microsoft callback succeeds, the e-mail of the record it wrote (the last of the identity's
  records, and each of them when the profile has an id) is the \<^verbatim>\<open>mail\<close> value when that
  value is true in Python's sense (present, not null, and not empty, zero or false), and
  the \<^verbatim>\<open>userPrincipalName\<close> value (\<^verbatim>\<open>None\<close> when absent) otherwise.
\<close>

theorem microsoft_email_mail_or_principal_name:
  "auth_redirect (Some ''abc'') (Inr [(''access_token'', a)])
      (Inr (JObj [(''mail'', JNull), (''userPrincipalName'', JStr ''a@x.com'')]))
      No_Fault now sess []
    = (success,
       sess(''user'' \<mapsto> JObj [(''mail'', JNull), (''userPrincipalName'', JStr ''a@x.com'')]),
       [\<lparr> provider = ''microsoft'', provider_user_id = JNull, name = JNull,
          email = JStr ''a@x.com'', profile_picture = JNull,
          raw_data = JObj [(''mail'', JNull), (''userPrincipalName'', JStr ''a@x.com'')],
          updated_at = now \<rparr>])
   \<and> (fst (auth_redirect code acq me fault now sess st) = success \<longrightarrow>
        (\<exists>d. me = Inr (JObj d)
           \<and> records_of ''microsoft'' (dict_get d ''id'')
                 (snd (snd (auth_redirect code acq me fault now sess st))) \<noteq> []
           \<and> email (last (records_of ''microsoft'' (dict_get d ''id'')
                 (snd (snd (auth_redirect code acq me fault now sess st)))))
               = (if truthy (dict_get d ''mail'') then dict_get d ''mail''
                  else dict_get d ''userPrincipalName'')
           \<and> (dict_get d ''id'' \<noteq> JNull \<longrightarrow>
                (\<forall>r \<in> set (records_of ''microsoft'' (dict_get d ''id'')
                            (snd (snd (auth_redirect code acq me fault now sess st)))).
                 email r = (if truthy (dict_get d ''mail'') then dict_get d ''mail''
                            else dict_get d ''userPrincipalName'')))))"
proof (intro conjI impI)
  show "auth_redirect (Some ''abc'') (Inr [(''access_token'', a)])
      (Inr (JObj [(''mail'', JNull), (''userPrincipalName'', JStr ''a@x.com'')]))
      No_Fault now sess []
    = (success,
       sess(''user'' \<mapsto> JObj [(''mail'', JNull), (''userPrincipalName'', JStr ''a@x.com'')]),
       [\<lparr> provider = ''microsoft'', provider_user_id = JNull, name = JNull,
          email = JStr ''a@x.com'', profile_picture = JNull,
          raw_data = JObj [(''mail'', JNull), (''userPrincipalName'', JStr ''a@x.com'')],
          updated_at = now \<rparr>])"
    by (simp add: auth_redirect_def microsoft_fields_def save_user_No_Fault success_def)
next
  assume "fst (auth_redirect code acq me fault now sess st) = success"
  from auth_redirect_success_records [OF this]
  obtain d where d: "me = Inr (JObj d)"
    "records_of ''microsoft'' (dict_get d ''id'')
        (snd (snd (auth_redirect code acq me fault now sess st))) \<noteq> []"
    "last (records_of ''microsoft'' (dict_get d ''id'')
        (snd (snd (auth_redirect code acq me fault now sess st))))
      = \<lparr> provider = ''microsoft'', provider_user_id = dict_get d ''id'',
           name = dict_get d ''displayName'',
           email = (if truthy (dict_get d ''mail'') then dict_get d ''mail''
                    else dict_get d ''userPrincipalName''),
           profile_picture = JNull, raw_data = JObj d, updated_at = now \<rparr>"
    "\<And>r. dict_get d ''id'' \<noteq> JNull \<Longrightarrow>
       r \<in> set (records_of ''microsoft'' (dict_get d ''id'')
                   (snd (snd (auth_redirect code acq me fault now sess st)))) \<Longrightarrow>
          r = \<lparr> provider = ''microsoft'', provider_user_id = dict_get d ''id'',
                 name = dict_get d ''displayName'',
                 email = (if truthy (dict_get d ''mail'') then dict_get d ''mail''
                          else dict_get d ''userPrincipalName''),
                 profile_picture = JNull, raw_data = JObj d, updated_at = now \<rparr>"
    by blast
  from d(3) have e: "email (last (records_of ''microsoft'' (dict_get d ''id'')
        (snd (snd (auth_redirect code acq me fault now sess st)))))
      = (if truthy (dict_get d ''mail'') then dict_get d ''mail''
         else dict_get d ''userPrincipalName'')"
    by simp
  have al: "email r = (if truthy (dict_get d ''mail'') then dict_get d ''mail''
                     else dict_get d ''userPrincipalName'')"
    if "dict_get d ''id'' \<noteq> JNull"
      and "r \<in> set (records_of ''microsoft'' (dict_get d ''id'')
                   (snd (snd (auth_redirect code acq me fault now sess st))))" for r
    using d(4) [OF that] by simp
  show "\<exists>d. me = Inr (JObj d)
           \<and> records_of ''microsoft'' (dict_get d ''id'')
                 (snd (snd (auth_redirect code acq me fault now sess st))) \<noteq> []
           \<and> email (last (records_of ''microsoft'' (dict_get d ''id'')
                 (snd (snd (auth_redirect code acq me fault now sess st)))))
               = (if truthy (dict_get d ''mail'') then dict_get d ''mail''
                  else dict_get d ''userPrincipalName'')
           \<and> (dict_get d ''id'' \<noteq> JNull \<longrightarrow>
                (\<forall>r \<in> set (records_of ''microsoft'' (dict_get d ''id'')
                            (snd (snd (auth_redirect code acq me fault now sess st)))).
                 email r = (if truthy (dict_get d ''mail'') then dict_get d ''mail''
                            else dict_get d ''userPrincipalName'')))"
    apply (intro exI [of _ d] conjI impI ballI)
       apply (rule d(1))
      apply (rule d(2))
     apply (rule e)
    apply (erule (1) al)
    done
qed

theorem microsoft_email_mail_or_principal_name_witness:
  "fst (auth_redirect (Some ''abc'') (Inr [(''access_token'', JStr ''t'')])
          (Inr (JObj [(''id'', JStr ''m1''), (''mail'', JStr ''m@x.com''),
                      (''userPrincipalName'', JStr ''u@x.com'')]))
          No_Fault 9 Map.empty []) = success
   \<and> map email (records_of ''microsoft'' (JStr ''m1'')
         (snd (snd (auth_redirect (Some ''abc'') (Inr [(''access_token'', JStr ''t'')])
          (Inr (JObj [(''id'', JStr ''m1''), (''mail'', JStr ''m@x.com''),
                      (''userPrincipalName'', JStr ''u@x.com'')]))
          No_Fault 9 Map.empty [])))) = [JStr ''m@x.com'']"
  using microsoft_email_mail_or_principal_name
    [where code = "Some ''abc''" and acq = "Inr [(''access_token'', JStr ''t'')]"
       and me = "Inr (JObj [(''id'', JStr ''m1''), (''mail'', JStr ''m@x.com''),
                      (''userPrincipalName'', JStr ''u@x.com'')])"
       and fault = No_Fault and now = 9 and sess = Map.empty and st = "[]"]
  by (simp add: auth_redirect_def microsoft_fields_def save_user_No_Fault success_def
        records_of_def has_key_def matches_def dict_get_def)

text \<open>
  C8 as stated fails: a \<^verbatim>\<open>mail\<close> value that is present and not null, but empty, is not
  stored; \<^verbatim>\<open>userPrincipalName\<close> is.
\<close>

theorem microsoft_email_empty_mail_counterexample:
  "email_when_present_and_non_null
     [(''id'', JStr ''m1''), (''mail'', JStr []), (''userPrincipalName'', JStr ''a@x.com'')]
     = JStr []
   \<and> auth_redirect (Some ''abc'') (Inr [(''access_token'', JStr ''t'')])
        (Inr (JObj [(''id'', JStr ''m1''), (''mail'', JStr []),
                    (''userPrincipalName'', JStr ''a@x.com'')]))
        No_Fault 9 Map.empty []
     = (success,
        [''user'' \<mapsto> JObj [(''id'', JStr ''m1''), (''mail'', JStr []),
                              (''userPrincipalName'', JStr ''a@x.com'')]],
        [\<lparr> provider = ''microsoft'', provider_user_id = JStr ''m1'', name = JNull,
           email = JStr ''a@x.com'', profile_picture = JNull,
           raw_data = JObj [(''id'', JStr ''m1''), (''mail'', JStr []),
                            (''userPrincipalName'', JStr ''a@x.com'')],
           updated_at = 9 \<rparr>])
   \<and> map email (snd (snd (auth_redirect (Some ''abc'') (Inr [(''access_token'', JStr ''t'')])
        (Inr (JObj [(''id'', JStr ''m1''), (''mail'', JStr []),
                    (''userPrincipalName'', JStr ''a@x.com'')]))
        No_Fault 9 Map.empty [])))
     \<noteq> [email_when_present_and_non_null
          [(''id'', JStr ''m1''), (''mail'', JStr []), (''userPrincipalName'', JStr ''a@x.com'')]]"
  by (simp add: email_when_present_and_non_null_def auth_redirect_def microsoft_fields_def
        save_user_No_Fault matches_def success_def dict_get_def)

text \<open>
  C9. Whenever the Microsoft callback succeeds, whatever the profile Graph returned, the
  identity it wrote has a record, and the profile_picture of the record this callback wrote
  (the last of the identity's records, and each of them when the profile has an id) is
  \<^verbatim>\<open>None\<close>.
\<close>

theorem microsoft_picture_is_none:
  "fst (auth_redirect code acq me fault now sess st) = success \<longrightarrow>
     (\<exists>d. me = Inr (JObj d)
        \<and> records_of ''microsoft'' (dict_get d ''id'')
              (snd (snd (auth_redirect code acq me fault now sess st))) \<noteq> []
        \<and> profile_picture (last (records_of ''microsoft'' (dict_get d ''id'')
              (snd (snd (auth_redirect code acq me fault now sess st))))) = JNull
        \<and> (dict_get d ''id'' \<noteq> JNull \<longrightarrow>
             (\<forall>r \<in> set (records_of ''microsoft'' (dict_get d ''id'')
                         (snd (snd (auth_redirect code acq me fault now sess st)))).
              profile_picture r = JNull)))"
proof
  assume "fst (auth_redirect code acq me fault now sess st) = success"
  from auth_redirect_success_records [OF this]
  obtain d where d: "me = Inr (JObj d)"
    "records_of ''microsoft'' (dict_get d ''id'')
        (snd (snd (auth_redirect code acq me fault now sess st))) \<noteq> []"
    "last (records_of ''microsoft'' (dict_get d ''id'')
        (snd (snd (auth_redirect code acq me fault now sess st))))
      = \<lparr> provider = ''microsoft'', provider_user_id = dict_get d ''id'',
           name = dict_get d ''displayName'',
           email = (if truthy (dict_get d ''mail'') then dict_get d ''mail''
                    else dict_get d ''userPrincipalName''),
           profile_picture = JNull, raw_data = JObj d, updated_at = now \<rparr>"
    "\<And>r. dict_get d ''id'' \<noteq> JNull \<Longrightarrow>
       r \<in> set (records_of ''microsoft'' (dict_get d ''id'')
                   (snd (snd (auth_redirect code acq me fault now sess st)))) \<Longrightarrow>
          r = \<lparr> provider = ''microsoft'', provider_user_id = dict_get d ''id'',
                 name = dict_get d ''displayName'',
                 email = (if truthy (dict_get d ''mail'') then dict_get d ''mail''
                          else dict_get d ''userPrincipalName''),
                 profile_picture = JNull, raw_data = JObj d, updated_at = now \<rparr>"
    by blast
  from d(3) have e: "profile_picture (last (records_of ''microsoft'' (dict_get d ''id'')
        (snd (snd (auth_redirect code acq me fault now sess st))))) = JNull"
    by simp
  have al: "profile_picture r = JNull"
    if "dict_get d ''id'' \<noteq> JNull"
      and "r \<in> set (records_of ''microsoft'' (dict_get d ''id'')
                   (snd (snd (auth_redirect code acq me fault now sess st))))" for r
    using d(4) [OF that] by simp
  show "\<exists>d. me = Inr (JObj d)
        \<and> records_of ''microsoft'' (dict_get d ''id'')
              (snd (snd (auth_redirect code acq me fault now sess st))) \<noteq> []
        \<and> profile_picture (last (records_of ''microsoft'' (dict_get d ''id'')
              (snd (snd (auth_redirect code acq me fault now sess st))))) = JNull
        \<and> (dict_get d ''id'' \<noteq> JNull \<longrightarrow>
             (\<forall>r \<in> set (records_of ''microsoft'' (dict_get d ''id'')
                         (snd (snd (auth_redirect code acq me fault now sess st)))).
              profile_picture r = JNull))"
    apply (intro exI [of _ d] conjI impI ballI)
       apply (rule d(1))
      apply (rule d(2))
     apply (rule e)
    apply (erule (1) al)
    done
qed

theorem microsoft_picture_is_none_witness:
  "fst (auth_redirect (Some ''abc'') (Inr [(''access_token'', JStr ''t'')])
          (Inr (JObj [(''id'', JStr ''m1''), (''picture'', JStr ''http://img''),
                      (''photo'', JObj [(''data'', JObj [(''url'', JStr ''http://img'')])])]))
          No_Fault 9 Map.empty []) = success
   \<and> map profile_picture (records_of ''microsoft'' (JStr ''m1'')
         (snd (snd (auth_redirect (Some ''abc'') (Inr [(''access_token'', JStr ''t'')])
          (Inr (JObj [(''id'', JStr ''m1''), (''picture'', JStr ''http://img''),
                      (''photo'', JObj [(''data'', JObj [(''url'', JStr ''http://img'')])])]))
          No_Fault 9 Map.empty [])))) = [JNull]"
  using microsoft_picture_is_none
    [where code = "Some ''abc''" and acq = "Inr [(''access_token'', JStr ''t'')]"
       and me = "Inr (JObj [(''id'', JStr ''m1''), (''picture'', JStr ''http://img''),
                      (''photo'', JObj [(''data'', JObj [(''url'', JStr ''http://img'')])])])"
       and fault = No_Fault and now = 9 and sess = Map.empty and st = "[]"]
  by (simp add: auth_redirect_def microsoft_fields_def save_user_No_Fault success_def
        records_of_def has_key_def matches_def dict_get_def)


end
